theory Spec2Isabelle
  imports Main
begin

section \<open>The constructs declared by the stack\<close>

text \<open>
  \<^verbatim>\<open>FinalCloudProjectV2Stack.__init__\<close> is a straight-line sequence of constructor
  calls and of three method calls on the objects it has built. Every construct is a
  record of the keyword arguments its constructor is given; a keyword argument the
  source does not pass is \<open>None\<close>. Reading an attribute of such an object
  (\<^verbatim>\<open>job.name\<close>, \<^verbatim>\<open>my_workflow.name\<close>) reads that field back.

  Three attributes are not arguments of a constructor but names the platform chooses
  at deployment: \<^verbatim>\<open>bucket_name\<close> of a bucket and \<^verbatim>\<open>role_arn\<close> of a role.
  They are parameters of the model, indexed by the construct id.
\<close>

record Tokens =
  bucket_name :: "string \<Rightarrow> string"
  role_arn :: "string \<Rightarrow> string"

datatype Effect = ALLOW | DENY

datatype RemovalPolicy = DESTROY | RETAIN | SNAPSHOT

datatype BlockPublicAccess = BLOCK_ALL | BLOCK_ACLS

record Role =
  role_id :: string
  assumed_by :: string
  managed_policies :: "string list"

record PolicyStatement =
  ps_effect :: "Effect option"
  ps_actions :: "string list"
  ps_resources :: "string list"

record Bucket =
  bucket_id :: string
  versioned :: "bool option"
  public_read_access :: "bool option"
  block_public_access :: "BlockPublicAccess option"
  removal_policy :: "RemovalPolicy option"
  auto_delete_objects :: "bool option"

record BucketDeployment =
  dep_id :: string
  dep_sources :: "string list"
  destination_bucket :: string
  destination_key_prefix :: "string option"

record CfnWorkflow =
  wf_id :: string
  wf_description :: "string option"
  wf_name :: "string option"

record JobCommandProperty =
  cmd_name :: "string option"
  python_version :: "string option"
  script_location :: "string option"

record CfnJob =
  job_id :: string
  job_name :: "string option"
  command :: JobCommandProperty
  job_role :: string
  glue_version :: "string option"
  max_capacity :: "int option"
  timeout :: "int option"
  default_arguments :: "(string \<rightharpoonup> string) option"

record ActionProperty =
  act_job_name :: "string option"
  act_crawler_name :: "string option"

record ConditionProperty =
  cond_state :: "string option"
  cond_logical_operator :: "string option"
  cond_job_name :: "string option"

record PredicateProperty =
  conditions :: "ConditionProperty list"

record CfnTrigger =
  trg_id :: string
  trg_name :: "string option"
  trg_actions :: "ActionProperty list"
  trg_type :: string
  start_on_creation :: "bool option"
  schedule :: "string option"
  workflow_name :: "string option"
  predicate :: "PredicateProperty option"

text \<open>
  What the constructor does to the stack, in the order of the source: a construct
  registered under the stack, or one of the three mutating calls
  \<^verbatim>\<open>glue_role.add_to_policy\<close>, \<^verbatim>\<open>data_bucket.grant_read_write\<close>,
  \<^verbatim>\<open>scripts_bucket.grant_read\<close>. Roles and buckets are referred to by construct id.
\<close>

datatype Declaration =
    DeclRole Role
  | AddToPolicy string PolicyStatement
  | DeclBucket Bucket
  | GrantReadWrite string string
  | GrantRead string string
  | DeclBucketDeployment BucketDeployment
  | DeclWorkflow CfnWorkflow
  | DeclJob CfnJob
  | DeclTrigger CfnTrigger

record Stack =
  stack_id :: string
  declarations :: "Declaration list"

definition declare_in :: "Declaration \<Rightarrow> Stack \<Rightarrow> Stack" where
  "declare_in d st = st\<lparr>declarations := declarations st @ [d]\<rparr>"

section \<open>The objects of the constructor, under the source's names\<close>

definition glue_role :: Role where
  "glue_role =
     \<lparr>role_id = ''my_glue_role'',
      assumed_by = ''glue.amazonaws.com'',
      managed_policies = [''service-role/AWSGlueServiceRole'']\<rparr>"

definition secrets_manager_policy :: PolicyStatement where
  "secrets_manager_policy =
     \<lparr>ps_effect = Some ALLOW,
      ps_actions = [''secretsmanager:GetSecretValue''],
      ps_resources =
        [''arn:aws:secretsmanager:us-west-2:943686807189:secret:finalproject/daniel/ticketmaster-Gu2UO4'']\<rparr>"

definition data_bucket :: Bucket where
  "data_bucket =
     \<lparr>bucket_id = ''final_data'',
      versioned = Some True,
      public_read_access = Some True,
      block_public_access = None,
      removal_policy = Some DESTROY,
      auto_delete_objects = Some True\<rparr>"

definition scripts_bucket :: Bucket where
  "scripts_bucket =
     \<lparr>bucket_id = ''glue_scripts'',
      versioned = Some True,
      public_read_access = None,
      block_public_access = Some BLOCK_ALL,
      removal_policy = Some DESTROY,
      auto_delete_objects = Some True\<rparr>"

definition deploy_assets :: BucketDeployment where
  "deploy_assets =
     \<lparr>dep_id = ''deploy_assets'',
      dep_sources = [''./assets/''],
      destination_bucket = bucket_id scripts_bucket,
      destination_key_prefix = Some ''assets/''\<rparr>"

definition my_workflow :: CfnWorkflow where
  "my_workflow =
     \<lparr>wf_id = ''ticketmaster_workflow'',
      wf_description = Some ''Workflow for processing Ticketmaster data to parquet'',
      wf_name = None\<rparr>"

definition ticketmaster_download_job :: "Tokens \<Rightarrow> CfnJob" where
  "ticketmaster_download_job tok =
     \<lparr>job_id = ''download_ticketmaster_data'',
      job_name = Some ''download_ticketmaster_data'',
      command =
        \<lparr>cmd_name = Some ''pythonshell'',
         python_version = Some ''3.9'',
         script_location =
           Some (''s3://'' @ bucket_name tok (bucket_id scripts_bucket)
                 @ ''/assets/ticketmaster_to_parquet.py'')\<rparr>,
      job_role = role_arn tok (role_id glue_role),
      glue_version = Some ''3.0'',
      max_capacity = Some 1,
      timeout = Some 3,
      default_arguments =
        Some [''--my_bucket'' \<mapsto> bucket_name tok (bucket_id data_bucket)]\<rparr>"

definition fragments_to_parquet_job :: "Tokens \<Rightarrow> CfnJob" where
  "fragments_to_parquet_job tok =
     \<lparr>job_id = ''fragments_to_parquet_job'',
      job_name = Some ''fragments_to_parquet_job'',
      command =
        \<lparr>cmd_name = Some ''pythonshell'',
         python_version = Some ''3.9'',
         script_location =
           Some (''s3://'' @ bucket_name tok (bucket_id scripts_bucket)
                 @ ''/assets/merge_parquet_final.py'')\<rparr>,
      job_role = role_arn tok (role_id glue_role),
      glue_version = Some ''3.0'',
      max_capacity = Some 1,
      timeout = Some 3,
      default_arguments =
        Some [''--my_bucket'' \<mapsto> bucket_name tok (bucket_id data_bucket)]\<rparr>"

definition parquet_analysis_job :: "Tokens \<Rightarrow> CfnJob" where
  "parquet_analysis_job tok =
     \<lparr>job_id = ''parquet_analysis_job'',
      job_name = Some ''parquet_analysis_job'',
      command =
        \<lparr>cmd_name = Some ''pythonshell'',
         python_version = Some ''3.9'',
         script_location =
           Some (''s3://'' @ bucket_name tok (bucket_id scripts_bucket)
                 @ ''/assets/V2TicketMasterAnalysis_Final.py'')\<rparr>,
      job_role = role_arn tok (role_id glue_role),
      glue_version = Some ''3.0'',
      max_capacity = Some 1,
      timeout = Some 3,
      default_arguments =
        Some [''--my_bucket'' \<mapsto> bucket_name tok (bucket_id data_bucket),
              ''--additional-python-modules'' \<mapsto>
                ''dython==0.7.5,matplotlib==3.8.3,folium==0.16.0'']\<rparr>"

definition job_1_trigger :: "Tokens \<Rightarrow> CfnTrigger" where
  "job_1_trigger tok =
     \<lparr>trg_id = ''initial_trigger'',
      trg_name = Some ''initial_trigger'',
      trg_actions =
        [\<lparr>act_job_name = job_name (ticketmaster_download_job tok),
          act_crawler_name = None\<rparr>],
      trg_type = ''SCHEDULED'',
      start_on_creation = Some True,
      schedule = Some ''cron(0 11 * * ? *)'',
      workflow_name = wf_name my_workflow,
      predicate = None\<rparr>"

definition job_2_trigger :: "Tokens \<Rightarrow> CfnTrigger" where
  "job_2_trigger tok =
     \<lparr>trg_id = ''frag_trigger'',
      trg_name = Some ''frag_trigger'',
      trg_actions =
        [\<lparr>act_job_name = job_name (fragments_to_parquet_job tok),
          act_crawler_name = None\<rparr>],
      trg_type = ''CONDITIONAL'',
      start_on_creation = Some True,
      schedule = None,
      workflow_name = wf_name my_workflow,
      predicate =
        Some \<lparr>conditions =
          [\<lparr>cond_state = Some ''SUCCEEDED'',
            cond_logical_operator = Some ''EQUALS'',
            cond_job_name = job_name (ticketmaster_download_job tok)\<rparr>]\<rparr>\<rparr>"

definition job_3_trigger :: "Tokens \<Rightarrow> CfnTrigger" where
  "job_3_trigger tok =
     \<lparr>trg_id = ''analysis_trigger'',
      trg_name = Some ''analysis_trigger'',
      trg_actions =
        [\<lparr>act_job_name = job_name (parquet_analysis_job tok),
          act_crawler_name = None\<rparr>],
      trg_type = ''CONDITIONAL'',
      start_on_creation = Some True,
      schedule = None,
      workflow_name = wf_name my_workflow,
      predicate =
        Some \<lparr>conditions =
          [\<lparr>cond_state = Some ''SUCCEEDED'',
            cond_logical_operator = Some ''EQUALS'',
            cond_job_name = job_name (fragments_to_parquet_job tok)\<rparr>]\<rparr>\<rparr>"

section \<open>The constructor\<close>

text \<open>
  The stack starts with no declaration under the id it is given, and every statement
  of \<^verbatim>\<open>__init__\<close> adds one, top to bottom. The commented-out catalog, crawler and
  crawler trigger at the end of the source declare nothing.
\<close>

definition FinalCloudProjectV2Stack :: "string \<Rightarrow> Tokens \<Rightarrow> Stack" where
  "FinalCloudProjectV2Stack construct_id tok =
     fold declare_in
       [DeclRole glue_role,
        AddToPolicy (role_id glue_role) secrets_manager_policy,
        DeclBucket data_bucket,
        DeclBucket scripts_bucket,
        GrantReadWrite (bucket_id data_bucket) (role_id glue_role),
        GrantRead (bucket_id scripts_bucket) (role_id glue_role),
        DeclBucketDeployment deploy_assets,
        DeclWorkflow my_workflow,
        DeclJob (ticketmaster_download_job tok),
        DeclJob (fragments_to_parquet_job tok),
        DeclJob (parquet_analysis_job tok),
        DeclTrigger (job_1_trigger tok),
        DeclTrigger (job_2_trigger tok),
        DeclTrigger (job_3_trigger tok)]
       \<lparr>stack_id = construct_id, declarations = []\<rparr>"

section \<open>Reading the declared graph\<close>

fun roles_of :: "Declaration list \<Rightarrow> Role list" where
  "roles_of [] = []"
| "roles_of (DeclRole r # ds) = r # roles_of ds"
| "roles_of (_ # ds) = roles_of ds"

text \<open>
  What a role is permitted beyond its managed policies. Three calls of the source
  add to it: \<^verbatim>\<open>add_to_policy\<close> with a statement, and the grants
  \<^verbatim>\<open>grant_read_write\<close> and \<^verbatim>\<open>grant_read\<close> of a bucket, which name the role
  as the grantee. The actions a grant stands for are the library's and are not
  written in the source, so a grant is kept as a grant on its bucket.
\<close>

datatype Permission =
    Statement PolicyStatement
  | BucketReadWrite string
  | BucketRead string

fun permissions_of :: "string \<Rightarrow> Declaration list \<Rightarrow> Permission list" where
  "permissions_of rid [] = []"
| "permissions_of rid (AddToPolicy r s # ds) =
     (if r = rid then Statement s # permissions_of rid ds else permissions_of rid ds)"
| "permissions_of rid (GrantReadWrite b r # ds) =
     (if r = rid then BucketReadWrite b # permissions_of rid ds else permissions_of rid ds)"
| "permissions_of rid (GrantRead b r # ds) =
     (if r = rid then BucketRead b # permissions_of rid ds else permissions_of rid ds)"
| "permissions_of rid (_ # ds) = permissions_of rid ds"

fun buckets_of :: "Declaration list \<Rightarrow> Bucket list" where
  "buckets_of [] = []"
| "buckets_of (DeclBucket b # ds) = b # buckets_of ds"
| "buckets_of (_ # ds) = buckets_of ds"

fun is_grant :: "Declaration \<Rightarrow> bool" where
  "is_grant (GrantReadWrite b r) = True"
| "is_grant (GrantRead b r) = True"
| "is_grant _ = False"

fun deployments_of :: "Declaration list \<Rightarrow> BucketDeployment list" where
  "deployments_of [] = []"
| "deployments_of (DeclBucketDeployment d # ds) = d # deployments_of ds"
| "deployments_of (_ # ds) = deployments_of ds"

fun workflows_of :: "Declaration list \<Rightarrow> CfnWorkflow list" where
  "workflows_of [] = []"
| "workflows_of (DeclWorkflow w # ds) = w # workflows_of ds"
| "workflows_of (_ # ds) = workflows_of ds"

fun is_job :: "Declaration \<Rightarrow> bool" where
  "is_job (DeclJob j) = True"
| "is_job _ = False"

fun jobs_of :: "Declaration list \<Rightarrow> CfnJob list" where
  "jobs_of [] = []"
| "jobs_of (DeclJob j # ds) = j # jobs_of ds"
| "jobs_of (_ # ds) = jobs_of ds"

fun triggers_of :: "Declaration list \<Rightarrow> CfnTrigger list" where
  "triggers_of [] = []"
| "triggers_of (DeclTrigger t # ds) = t # triggers_of ds"
| "triggers_of (_ # ds) = triggers_of ds"

text \<open>The conditions of a trigger: those of its predicate, none without a predicate.\<close>

definition trigger_conditions :: "CfnTrigger \<Rightarrow> ConditionProperty list" where
  "trigger_conditions t = (case predicate t of None \<Rightarrow> [] | Some p \<Rightarrow> conditions p)"

text \<open>The jobs a trigger starts: the job names of its actions.\<close>

definition trigger_jobs :: "CfnTrigger \<Rightarrow> string option list" where
  "trigger_jobs t = map act_job_name (trg_actions t)"

text \<open>Looking a key up in the default arguments of a job, and the keys it declares.\<close>

definition job_argument :: "CfnJob \<Rightarrow> string \<Rightarrow> string option" where
  "job_argument j k = (case default_arguments j of None \<Rightarrow> None | Some m \<Rightarrow> m k)"

definition job_argument_keys :: "CfnJob \<Rightarrow> string set" where
  "job_argument_keys j = (case default_arguments j of None \<Rightarrow> {} | Some m \<Rightarrow> dom m)"

section \<open>The declarations of the stack, in order\<close>

lemma stack_declarations:
  "declarations (FinalCloudProjectV2Stack cid tok) =
     [DeclRole glue_role,
      AddToPolicy (role_id glue_role) secrets_manager_policy,
      DeclBucket data_bucket,
      DeclBucket scripts_bucket,
      GrantReadWrite (bucket_id data_bucket) (role_id glue_role),
      GrantRead (bucket_id scripts_bucket) (role_id glue_role),
      DeclBucketDeployment deploy_assets,
      DeclWorkflow my_workflow,
      DeclJob (ticketmaster_download_job tok),
      DeclJob (fragments_to_parquet_job tok),
      DeclJob (parquet_analysis_job tok),
      DeclTrigger (job_1_trigger tok),
      DeclTrigger (job_2_trigger tok),
      DeclTrigger (job_3_trigger tok)]"
  by (simp add: FinalCloudProjectV2Stack_def declare_in_def)

lemma stack_id_kept: "stack_id (FinalCloudProjectV2Stack cid tok) = cid"
  by (simp add: FinalCloudProjectV2Stack_def declare_in_def)

lemma stack_roles:
  "roles_of (declarations (FinalCloudProjectV2Stack cid tok)) = [glue_role]"
  by (simp add: stack_declarations)

lemma stack_permissions:
  "permissions_of rid (declarations (FinalCloudProjectV2Stack cid tok)) =
     (if role_id glue_role = rid
      then [Statement secrets_manager_policy,
            BucketReadWrite (bucket_id data_bucket),
            BucketRead (bucket_id scripts_bucket)]
      else [])"
  by (simp add: stack_declarations)

lemma stack_buckets:
  "buckets_of (declarations (FinalCloudProjectV2Stack cid tok)) = [data_bucket, scripts_bucket]"
  by (simp add: stack_declarations)

lemma stack_grants:
  "filter is_grant (declarations (FinalCloudProjectV2Stack cid tok)) =
     [GrantReadWrite (bucket_id data_bucket) (role_id glue_role),
      GrantRead (bucket_id scripts_bucket) (role_id glue_role)]"
  by (simp add: stack_declarations)

lemma stack_deployments:
  "deployments_of (declarations (FinalCloudProjectV2Stack cid tok)) = [deploy_assets]"
  by (simp add: stack_declarations)

lemma stack_workflows:
  "workflows_of (declarations (FinalCloudProjectV2Stack cid tok)) = [my_workflow]"
  by (simp add: stack_declarations)

lemma stack_jobs:
  "jobs_of (declarations (FinalCloudProjectV2Stack cid tok)) =
     [ticketmaster_download_job tok, fragments_to_parquet_job tok, parquet_analysis_job tok]"
  by (simp add: stack_declarations)

lemma stack_triggers:
  "triggers_of (declarations (FinalCloudProjectV2Stack cid tok)) =
     [job_1_trigger tok, job_2_trigger tok, job_3_trigger tok]"
  by (simp add: stack_declarations)

lemma stack_before_first_job:
  "takeWhile (\<lambda>d. \<not> is_job d) (declarations (FinalCloudProjectV2Stack cid tok)) =
     [DeclRole glue_role,
      AddToPolicy (role_id glue_role) secrets_manager_policy,
      DeclBucket data_bucket,
      DeclBucket scripts_bucket,
      GrantReadWrite (bucket_id data_bucket) (role_id glue_role),
      GrantRead (bucket_id scripts_bucket) (role_id glue_role),
      DeclBucketDeployment deploy_assets,
      DeclWorkflow my_workflow]"
  by (simp add: stack_declarations)

text \<open>
  The constructs the source declares itself, by kind. This counts the declarations of
  \<^verbatim>\<open>__init__\<close>, not the resources of a synthesized template.
\<close>

lemma declared_construct_counts:
  "length (buckets_of (declarations (FinalCloudProjectV2Stack cid tok))) = 2
   \<and> length (roles_of (declarations (FinalCloudProjectV2Stack cid tok))) = 1
   \<and> length (jobs_of (declarations (FinalCloudProjectV2Stack cid tok))) = 3
   \<and> length (triggers_of (declarations (FinalCloudProjectV2Stack cid tok))) = 3
   \<and> length (workflows_of (declarations (FinalCloudProjectV2Stack cid tok))) = 1"
  by (simp add: stack_buckets stack_roles stack_jobs stack_triggers stack_workflows)

section \<open>The claims\<close>

text \<open>
  C5. The trigger that starts job 1 (\<open>download_ticketmaster_data\<close>) has type
  \<open>SCHEDULED\<close> and the schedule \<open>cron(0 11 * * ? *)\<close>; the triggers that start
  jobs 2 and 3 have type \<open>CONDITIONAL\<close> and no schedule. These are all the triggers
  of the stack.
\<close>

theorem C5_trigger_types_and_schedule:
  "map (\<lambda>t. (trigger_jobs t, trg_type t, schedule t))
       (triggers_of (declarations (FinalCloudProjectV2Stack cid tok))) =
     [([Some ''download_ticketmaster_data''], ''SCHEDULED'', Some ''cron(0 11 * * ? *)''),
      ([Some ''fragments_to_parquet_job''], ''CONDITIONAL'', None),
      ([Some ''parquet_analysis_job''], ''CONDITIONAL'', None)]"
  by (simp add: stack_triggers trigger_jobs_def job_1_trigger_def job_2_trigger_def
      job_3_trigger_def ticketmaster_download_job_def fragments_to_parquet_job_def
      parquet_analysis_job_def)

text \<open>
  C1. The trigger chain is linear and gated on success. The stack has three triggers.
  The one that starts job 2 (\<open>fragments_to_parquet_job\<close>) has exactly one condition:
  job 1 (\<open>download_ticketmaster_data\<close>) \<open>EQUALS\<close> the state \<open>SUCCEEDED\<close>. The one
  that starts job 3 (\<open>parquet_analysis_job\<close>) has exactly one condition: job 2
  \<open>EQUALS\<close> \<open>SUCCEEDED\<close>. The scheduled trigger has no condition, so no trigger has
  more than one, and no condition of the stack names a state other than \<open>SUCCEEDED\<close>.
  The job names are those of the three declared jobs, in order.
\<close>

theorem C1_trigger_chain_linear_success_gated:
  "map (\<lambda>t. (trigger_jobs t, trigger_conditions t))
       (triggers_of (declarations (FinalCloudProjectV2Stack cid tok))) =
     [([Some ''download_ticketmaster_data''], []),
      ([Some ''fragments_to_parquet_job''],
       [\<lparr>cond_state = Some ''SUCCEEDED'',
         cond_logical_operator = Some ''EQUALS'',
         cond_job_name = Some ''download_ticketmaster_data''\<rparr>]),
      ([Some ''parquet_analysis_job''],
       [\<lparr>cond_state = Some ''SUCCEEDED'',
         cond_logical_operator = Some ''EQUALS'',
         cond_job_name = Some ''fragments_to_parquet_job''\<rparr>])]
   \<and> map job_name (jobs_of (declarations (FinalCloudProjectV2Stack cid tok))) =
     [Some ''download_ticketmaster_data'',
      Some ''fragments_to_parquet_job'',
      Some ''parquet_analysis_job'']"
  by (simp add: stack_triggers stack_jobs trigger_jobs_def trigger_conditions_def
      job_1_trigger_def job_2_trigger_def job_3_trigger_def ticketmaster_download_job_def
      fragments_to_parquet_job_def parquet_analysis_job_def)

text \<open>
  C2, as the claim words it, fails: beyond its managed policy the role is permitted
  more than one thing. At the stack id \<open>FinalCloudProjectV2Stack\<close> its permissions
  are three, the secret statement and the two bucket grants.
\<close>

theorem C2_single_statement_counterexample:
  "length (permissions_of ''my_glue_role''
     (declarations (FinalCloudProjectV2Stack ''FinalCloudProjectV2Stack''
        \<lparr>bucket_name = id, role_arn = id\<rparr>))) = 3
   \<and> permissions_of ''my_glue_role''
     (declarations (FinalCloudProjectV2Stack ''FinalCloudProjectV2Stack''
        \<lparr>bucket_name = id, role_arn = id\<rparr>)) \<noteq>
     [Statement
       \<lparr>ps_effect = Some ALLOW,
        ps_actions = [''secretsmanager:GetSecretValue''],
        ps_resources =
          [''arn:aws:secretsmanager:us-west-2:943686807189:secret:finalproject/daniel/ticketmaster-Gu2UO4'']\<rparr>]"
  by (simp add: stack_permissions glue_role_def)

text \<open>
  C2, amended. The stack declares one role, with the one managed policy
  \<open>service-role/AWSGlueServiceRole\<close>. Beyond that policy the role is permitted exactly
  three things, in this order: one policy statement, added with
  \<^verbatim>\<open>add_to_policy\<close>, that allows exactly the action
  \<open>secretsmanager:GetSecretValue\<close> on exactly the one hard-coded secret ARN; the
  read-write grant on the data bucket; and the read grant on the scripts bucket. So
  the secret statement is the only statement the source writes out, and the only
  permission of the role that is not a bucket grant.
\<close>

theorem C2_role_permission_set:
  "map (\<lambda>r. (role_id r, managed_policies r))
       (roles_of (declarations (FinalCloudProjectV2Stack cid tok))) =
     [(''my_glue_role'', [''service-role/AWSGlueServiceRole''])]
   \<and> permissions_of ''my_glue_role'' (declarations (FinalCloudProjectV2Stack cid tok)) =
     [Statement
       \<lparr>ps_effect = Some ALLOW,
        ps_actions = [''secretsmanager:GetSecretValue''],
        ps_resources =
          [''arn:aws:secretsmanager:us-west-2:943686807189:secret:finalproject/daniel/ticketmaster-Gu2UO4'']\<rparr>,
      BucketReadWrite ''final_data'',
      BucketRead ''glue_scripts'']
   \<and> map bucket_id (buckets_of (declarations (FinalCloudProjectV2Stack cid tok))) =
     [''final_data'', ''glue_scripts'']"
  by (simp add: stack_roles stack_permissions stack_buckets glue_role_def
      secrets_manager_policy_def data_bucket_def scripts_bucket_def)

text \<open>
  C3. The stack declares two buckets, both versioned. The data bucket (\<open>final_data\<close>)
  is declared with public read access set to true and no public-access block; the
  scripts bucket (\<open>glue_scripts\<close>) is declared with the block \<open>BLOCK_ALL\<close> and
  without public read access.
\<close>

theorem C3_bucket_public_access:
  "map (\<lambda>b. (bucket_id b, versioned b, public_read_access b, block_public_access b))
       (buckets_of (declarations (FinalCloudProjectV2Stack cid tok))) =
     [(''final_data'', Some True, Some True, None),
      (''glue_scripts'', Some True, None, Some BLOCK_ALL)]"
  by (simp add: stack_buckets data_bucket_def scripts_bucket_def)

text \<open>
  C9. Both buckets of the stack are declared with the removal policy \<open>DESTROY\<close> and
  with \<^verbatim>\<open>auto_delete_objects\<close> set to true.
\<close>

theorem C9_buckets_destroyed_with_stack:
  "map (\<lambda>b. (bucket_id b, removal_policy b, auto_delete_objects b))
       (buckets_of (declarations (FinalCloudProjectV2Stack cid tok))) =
     [(''final_data'', Some DESTROY, Some True),
      (''glue_scripts'', Some DESTROY, Some True)]"
  by (simp add: stack_buckets data_bucket_def scripts_bucket_def)

text \<open>
  C6. Exactly three jobs are declared. The script location of each is
  \<open>s3://\<close>, the name of the scripts bucket, \<open>/\<close>, the key prefix \<open>assets/\<close> and a
  script file name ending in \<open>.py\<close>; the three locations are pairwise distinct. The one
  asset upload of the stack goes into the scripts bucket under the same key prefix
  \<open>assets/\<close>.
\<close>

theorem C6_job_scripts_under_upload_prefix:
  "map (\<lambda>j. script_location (command j))
       (jobs_of (declarations (FinalCloudProjectV2Stack cid tok))) =
     [Some (''s3://'' @ bucket_name tok ''glue_scripts'' @ ''/'' @ ''assets/''
            @ ''ticketmaster_to_parquet'' @ ''.py''),
      Some (''s3://'' @ bucket_name tok ''glue_scripts'' @ ''/'' @ ''assets/''
            @ ''merge_parquet_final'' @ ''.py''),
      Some (''s3://'' @ bucket_name tok ''glue_scripts'' @ ''/'' @ ''assets/''
            @ ''V2TicketMasterAnalysis_Final'' @ ''.py'')]
   \<and> distinct (map (\<lambda>j. script_location (command j))
       (jobs_of (declarations (FinalCloudProjectV2Stack cid tok))))
   \<and> map (\<lambda>d. (destination_bucket d, destination_key_prefix d))
       (deployments_of (declarations (FinalCloudProjectV2Stack cid tok))) =
     [(''glue_scripts'', Some ''assets/'')]
   \<and> map bucket_id (buckets_of (declarations (FinalCloudProjectV2Stack cid tok))) =
     [''final_data'', ''glue_scripts'']"
  by (simp add: stack_jobs stack_deployments stack_buckets ticketmaster_download_job_def
      fragments_to_parquet_job_def parquet_analysis_job_def deploy_assets_def
      data_bucket_def scripts_bucket_def)

text \<open>
  C7. Each of the three jobs has default arguments, and in each the key
  \<open>--my_bucket\<close> is bound to the name of the data bucket. Jobs 1 and 2 declare no other
  key. Job 3 also binds \<open>--additional-python-modules\<close> to
  \<open>dython==0.7.5,matplotlib==3.8.3,folium==0.16.0\<close>, a key the other two do not have.
\<close>

theorem C7_job_default_arguments:
  "map (\<lambda>j. (job_name j, job_argument j ''--my_bucket'',
              job_argument j ''--additional-python-modules'', job_argument_keys j))
       (jobs_of (declarations (FinalCloudProjectV2Stack cid tok))) =
     [(Some ''download_ticketmaster_data'', Some (bucket_name tok ''final_data''), None,
       {''--my_bucket''}),
      (Some ''fragments_to_parquet_job'', Some (bucket_name tok ''final_data''), None,
       {''--my_bucket''}),
      (Some ''parquet_analysis_job'', Some (bucket_name tok ''final_data''),
       Some ''dython==0.7.5,matplotlib==3.8.3,folium==0.16.0'',
       {''--my_bucket'', ''--additional-python-modules''})]"
  by (auto simp add: stack_jobs job_argument_def job_argument_keys_def
      ticketmaster_download_job_def fragments_to_parquet_job_def parquet_analysis_job_def
      data_bucket_def)

text \<open>
  C8. The stack holds exactly two grants, both to the one declared role: read-write on
  the data bucket and read on the scripts bucket. Both stand among the declarations
  made before the first job is declared, and each of the three jobs runs under the
  ARN of that role.
\<close>

theorem C8_grants_before_jobs:
  "filter is_grant (declarations (FinalCloudProjectV2Stack cid tok)) =
     [GrantReadWrite ''final_data'' ''my_glue_role'',
      GrantRead ''glue_scripts'' ''my_glue_role'']
   \<and> GrantReadWrite ''final_data'' ''my_glue_role''
       \<in> set (takeWhile (\<lambda>d. \<not> is_job d) (declarations (FinalCloudProjectV2Stack cid tok)))
   \<and> GrantRead ''glue_scripts'' ''my_glue_role''
       \<in> set (takeWhile (\<lambda>d. \<not> is_job d) (declarations (FinalCloudProjectV2Stack cid tok)))
   \<and> map job_role (jobs_of (declarations (FinalCloudProjectV2Stack cid tok))) =
     [role_arn tok ''my_glue_role'', role_arn tok ''my_glue_role'',
      role_arn tok ''my_glue_role'']
   \<and> map role_id (roles_of (declarations (FinalCloudProjectV2Stack cid tok))) =
     [''my_glue_role'']
   \<and> map bucket_id (buckets_of (declarations (FinalCloudProjectV2Stack cid tok))) =
     [''final_data'', ''glue_scripts'']"
  by (simp add: stack_grants stack_before_first_job stack_jobs stack_roles stack_buckets
      ticketmaster_download_job_def fragments_to_parquet_job_def parquet_analysis_job_def
      glue_role_def data_bucket_def scripts_bucket_def)

text \<open>
  The part of C10 that the constructor does give: the three jobs agree on command
  name, python version, glue version, capacity, timeout and role, and every trigger
  is declared with \<^verbatim>\<open>start_on_creation\<close> set to true.
\<close>

lemma jobs_share_runtime_configuration:
  "map (\<lambda>j. (cmd_name (command j), python_version (command j), glue_version j,
              max_capacity j, timeout j, job_role j))
       (jobs_of (declarations (FinalCloudProjectV2Stack cid tok))) =
     replicate 3 (Some ''pythonshell'', Some ''3.9'', Some ''3.0'', Some 1, Some 3,
                  role_arn tok ''my_glue_role'')"
  by (simp add: stack_jobs ticketmaster_download_job_def fragments_to_parquet_job_def
      parquet_analysis_job_def glue_role_def numeral_3_eq_3)

lemma triggers_start_on_creation:
  "map start_on_creation (triggers_of (declarations (FinalCloudProjectV2Stack cid tok))) =
     [Some True, Some True, Some True]"
  by (simp add: stack_triggers job_1_trigger_def job_2_trigger_def job_3_trigger_def)

text \<open>
  C10, the workflow. The one workflow of the stack is constructed with a description
  and without a name, so \<^verbatim>\<open>my_workflow.name\<close> is \<open>None\<close>, and that is what each of
  the three triggers receives as \<^verbatim>\<open>workflow_name\<close>: no trigger names a workflow.
  Every job and every trigger of the source passes \<^verbatim>\<open>name=\<close>; the workflow alone
  does not.
\<close>

theorem C10_triggers_name_no_workflow:
  "map (\<lambda>w. (wf_id w, wf_name w))
       (workflows_of (declarations (FinalCloudProjectV2Stack ''FinalCloudProjectV2Stack'' tok))) =
     [(''ticketmaster_workflow'', None)]
   \<and> map (\<lambda>t. (trg_name t, workflow_name t))
       (triggers_of (declarations (FinalCloudProjectV2Stack ''FinalCloudProjectV2Stack'' tok))) =
     [(Some ''initial_trigger'', None),
      (Some ''frag_trigger'', None),
      (Some ''analysis_trigger'', None)]"
  by (simp add: stack_workflows stack_triggers my_workflow_def job_1_trigger_def
      job_2_trigger_def job_3_trigger_def)

end
